theory Spec2Isabelle
  imports Main
begin

section \<open>Go values the plugin handles\<close>

text \<open>
  A Go function either returns or panics. Every operation of the source that can panic at
  run time (a slice index, a single-value type assertion) is a branch of the model.
\<close>

datatype panic =
    IndexOutOfRange
  | InterfaceConversion

datatype 'a outcome =
    Panic panic
  | Return 'a

text \<open>
  \<^verbatim>\<open>interface{}\<close> values as \<^verbatim>\<open>json.Unmarshal\<close> produces them: nil, bool, float64, string,
  \<^verbatim>\<open>[]interface{}\<close> and \<^verbatim>\<open>map[string]interface{}\<close>. Nothing in the plugin looks inside a
  number, so float64 stays an opaque type.
\<close>

typedecl float64

datatype jvalue =
    JNull
  | JBool bool
  | JNumber float64
  | JString string
  | JArray "jvalue list"
  | JObject "string \<Rightarrow> jvalue option"

text \<open>
  A Go map variable is nil or refers to a table. Reading a nil map behaves like reading an
  empty one; only \<^verbatim>\<open>json.Marshal\<close> tells them apart.
\<close>

datatype 'v gomap =
    NilMap
  | GoMap "string \<Rightarrow> 'v option"

text \<open>\<^verbatim>\<open>v, ok := m[k]\<close>: \<open>None\<close> stands for \<^verbatim>\<open>ok == false\<close>.\<close>

fun lookup_ok :: "'v gomap \<Rightarrow> string \<Rightarrow> 'v option" where
  "lookup_ok NilMap k = None"
| "lookup_ok (GoMap m) k = m k"

text \<open>\<^verbatim>\<open>len(m) == 0\<close>.\<close>

fun len_is_zero :: "'v gomap \<Rightarrow> bool" where
  "len_is_zero NilMap = True"
| "len_is_zero (GoMap m) = (dom m = {})"

type_synonym netconf = "jvalue gomap"

text \<open>\<^verbatim>\<open>m[k]\<close> on a \<^verbatim>\<open>map[string]string\<close>: the zero value \<^verbatim>\<open>""\<close> for a missing key.\<close>

definition index_string :: "(string \<Rightarrow> string option) \<Rightarrow> string \<Rightarrow> string" where
  "index_string m k = (case m k of None \<Rightarrow> [] | Some v \<Rightarrow> v)"

text \<open>\<^verbatim>\<open>m[k]\<close> on a \<^verbatim>\<open>map[string]interface{}\<close>: the nil interface for a missing key.\<close>

definition index_iface :: "netconf \<Rightarrow> string \<Rightarrow> jvalue" where
  "index_iface m k = (case lookup_ok m k of None \<Rightarrow> JNull | Some v \<Rightarrow> v)"

text \<open>\<^verbatim>\<open>v.(string)\<close>, the single-value type assertion: it panics on any other dynamic type.\<close>

fun assert_string :: "jvalue \<Rightarrow> string outcome" where
  "assert_string (JString s) = Return s"
| "assert_string v = Panic InterfaceConversion"

text \<open>\<^verbatim>\<open>s[i]\<close> on a slice.\<close>

definition at :: "'a list \<Rightarrow> nat \<Rightarrow> 'a outcome" where
  "at xs i = (if i < length xs then Return (xs ! i) else Panic IndexOutOfRange)"

section \<open>The configuration document\<close>

record config =
  Name :: string
  Type :: string
  LogLevel :: string
  Default :: netconf
  Namespaces :: "netconf gomap"

datatype error =
    NamespaceMissing
  | ConfigNotFound string
  | MarshalFailed string
  | Foreign string

text \<open>
  \<open>NamespaceMissing\<close> is \<^verbatim>\<open>errors.New("Kubernetes namespace argument missing or empty.")\<close>,
  \<open>ConfigNotFound ns\<close> is
  \<^verbatim>\<open>fmt.Errorf("Config for namespace %q not found, and no default given.", ns)\<close>,
  \<open>MarshalFailed e\<close> is \<^verbatim>\<open>fmt.Errorf("Failed to marshal config: %v", e)\<close>, and \<open>Foreign e\<close> is
  an error value handed back by the CNI library, identified by its message.
\<close>

section \<open>strings.Split and strings.SplitN\<close>

text \<open>
  The two functions of Go's \<^verbatim>\<open>strings\<close> package that the parser calls, for a separator of
  one byte (the plugin only splits at \<^verbatim>\<open>";"\<close> and \<^verbatim>\<open>"="\<close>). \<open>Index\<close> is the position of the
  first separator; \<open>genSplit s sep n\<close> cuts \<open>s\<close> into at most \<open>n\<close> pieces, the last one
  holding the unsplit rest.
\<close>

fun Index :: "string \<Rightarrow> char \<Rightarrow> nat option" where
  "Index [] sep = None"
| "Index (c # cs) sep =
     (if c = sep then Some 0
      else (case Index cs sep of None \<Rightarrow> None | Some i \<Rightarrow> Some (Suc i)))"

fun Count :: "string \<Rightarrow> char \<Rightarrow> nat" where
  "Count [] sep = 0"
| "Count (c # cs) sep = (if c = sep then Suc (Count cs sep) else Count cs sep)"

fun genSplit :: "string \<Rightarrow> char \<Rightarrow> nat \<Rightarrow> string list" where
  "genSplit s sep 0 = []"
| "genSplit s sep (Suc 0) = [s]"
| "genSplit s sep (Suc (Suc n)) =
     (case Index s sep of
        None \<Rightarrow> [s]
      | Some m \<Rightarrow> take m s # genSplit (drop (Suc m) s) sep (Suc n))"

definition SplitN :: "string \<Rightarrow> char \<Rightarrow> nat \<Rightarrow> string list" where
  "SplitN s sep n = genSplit s sep n"

definition Split :: "string \<Rightarrow> char \<Rightarrow> string list" where
  "Split s sep = genSplit s sep (Suc (Count s sep))"

section \<open>parseExtraArgs\<close>

text \<open>One round of the \<^verbatim>\<open>range\<close> loop: \<^verbatim>\<open>continue\<close> leaves the map as it is.\<close>

definition parse_segment ::
  "(string \<Rightarrow> string option) \<Rightarrow> string \<Rightarrow> (string \<Rightarrow> string option) outcome" where
  "parse_segment parsedArgs seg =
     (let s = SplitN seg (CHR ''='') 2 in
      if length s < 2 then Return parsedArgs
      else (case at s 0 of
              Panic p \<Rightarrow> Panic p
            | Return k \<Rightarrow>
                (case at s 1 of
                   Panic p \<Rightarrow> Panic p
                 | Return v \<Rightarrow> Return (parsedArgs(k \<mapsto> v)))))"

fun parse_loop ::
  "(string \<Rightarrow> string option) \<Rightarrow> string list \<Rightarrow> (string \<Rightarrow> string option) outcome" where
  "parse_loop parsedArgs [] = Return parsedArgs"
| "parse_loop parsedArgs (seg # segs) =
     (case parse_segment parsedArgs seg of
        Panic p \<Rightarrow> Panic p
      | Return parsedArgs' \<Rightarrow> parse_loop parsedArgs' segs)"

definition parseExtraArgs :: "string \<Rightarrow> (string \<Rightarrow> string option) outcome" where
  "parseExtraArgs args = parse_loop Map.empty (Split args (CHR '';''))"

section \<open>getNetConf\<close>

text \<open>
  The fields attached to a debug record. The logger is the package variable \<^verbatim>\<open>log\<close>, state
  outside the function: the model threads a world \<open>'w\<close> through and takes the logger's
  \<^verbatim>\<open>Debug\<close> as a parameter acting on it.
\<close>

record debug_fields =
  field_namespace :: string
  field_pod :: string
  field_config :: netconf

definition getNetConf ::
  "(debug_fields \<Rightarrow> string \<Rightarrow> 'w \<Rightarrow> 'w) \<Rightarrow> config \<Rightarrow> string \<Rightarrow> 'w
     \<Rightarrow> (error + netconf) outcome \<times> 'w" where
  "getNetConf Debug c args w =
     (case parseExtraArgs args of
        Panic p \<Rightarrow> (Panic p, w)
      | Return extraArgs \<Rightarrow>
          (let namespace = index_string extraArgs ''K8S_POD_NAMESPACE'';
               pod = index_string extraArgs ''K8S_POD_NAME''
           in if namespace = [] then (Return (Inl NamespaceMissing), w)
              else (case lookup_ok (Namespaces c) namespace of
                      Some cfg \<Rightarrow>
                        (Return (Inr cfg),
                         Debug \<lparr>field_namespace = namespace, field_pod = pod, field_config = cfg\<rparr>
                           ''Using namespace specific config.'' w)
                    | None \<Rightarrow>
                        if len_is_zero (Default c)
                        then (Return (Inl (ConfigNotFound namespace)), w)
                        else (Return (Inr (Default c)),
                              Debug \<lparr>field_namespace = namespace, field_pod = pod,
                                     field_config = Default c\<rparr>
                                ''Per-namespace config not found. Using default.'' w))))"

section \<open>delegateAdd and delegateDel\<close>

text \<open>
  \<^verbatim>\<open>json.Marshal\<close>, \<^verbatim>\<open>invoke.DelegateAdd\<close>, \<^verbatim>\<open>invoke.DelegateDel\<close> and the result's \<^verbatim>\<open>Print\<close>
  belong to libraries; they are parameters. The invocations run a subordinate plugin and
  write to standard output, so they act on the world. Go evaluates the arguments of a call
  before the call: a failing type assertion panics before the subordinate is invoked.
\<close>

type_synonym bytes = string

definition delegateAdd ::
  "(netconf \<Rightarrow> string + bytes) \<Rightarrow> (string \<Rightarrow> bytes \<Rightarrow> 'w \<Rightarrow> (error + 'r) \<times> 'w)
     \<Rightarrow> ('r \<Rightarrow> 'w \<Rightarrow> error option \<times> 'w) \<Rightarrow> netconf \<Rightarrow> 'w \<Rightarrow> error option outcome \<times> 'w" where
  "delegateAdd Marshal DelegateAdd Print netconf w =
     (case Marshal netconf of
        Inl err \<Rightarrow> (Return (Some (MarshalFailed err)), w)
      | Inr ncBytes \<Rightarrow>
          (case assert_string (index_iface netconf ''type'') of
             Panic p \<Rightarrow> (Panic p, w)
           | Return t \<Rightarrow>
               (case DelegateAdd t ncBytes w of
                  (Inl err, w') \<Rightarrow> (Return (Some err), w')
                | (Inr result, w') \<Rightarrow>
                    (case Print result w' of (e, w'') \<Rightarrow> (Return e, w'')))))"

definition delegateDel ::
  "(netconf \<Rightarrow> string + bytes) \<Rightarrow> (string \<Rightarrow> bytes \<Rightarrow> 'w \<Rightarrow> error option \<times> 'w)
     \<Rightarrow> netconf \<Rightarrow> 'w \<Rightarrow> error option outcome \<times> 'w" where
  "delegateDel Marshal DelegateDel netconf w =
     (case Marshal netconf of
        Inl err \<Rightarrow> (Return (Some (MarshalFailed err)), w)
      | Inr ncBytes \<Rightarrow>
          (case assert_string (index_iface netconf ''type'') of
             Panic p \<Rightarrow> (Panic p, w)
           | Return t \<Rightarrow>
               (case DelegateDel t ncBytes w of (e, w') \<Rightarrow> (Return e, w'))))"

section \<open>What the parser is meant to compute\<close>

text \<open>
  The specification's reading of the argument string: a segment is well formed when it holds
  an \<^verbatim>\<open>=\<close>; its key is the text before the first \<^verbatim>\<open>=\<close> and its value all the text after
  it (which may be empty and may hold further \<^verbatim>\<open>=\<close> signs).
\<close>

definition has_equals :: "string \<Rightarrow> bool" where
  "has_equals seg = (CHR ''='' \<in> set seg)"

definition key_value :: "string \<Rightarrow> string \<times> string" where
  "key_value seg =
     (takeWhile (\<lambda>c. c \<noteq> CHR ''='') seg, drop 1 (dropWhile (\<lambda>c. c \<noteq> CHR ''='') seg))"

definition wellformed_pairs :: "string \<Rightarrow> (string \<times> string) list" where
  "wellformed_pairs args = map key_value (filter has_equals (Split args (CHR '';'')))"

text \<open>\<^verbatim>\<open>strings.Join\<close>, to say what the pieces of \<open>Split\<close> are.\<close>

fun Join :: "string list \<Rightarrow> char \<Rightarrow> string" where
  "Join [] sep = []"
| "Join [s] sep = s"
| "Join (s # t # ss) sep = s @ sep # Join (t # ss) sep"

section \<open>Examples\<close>

text \<open>A logger that keeps every debug record, and a document with a default and two namespaces.\<close>

definition keep_debug ::
  "debug_fields \<Rightarrow> string \<Rightarrow> (debug_fields \<times> string) list \<Rightarrow> (debug_fields \<times> string) list" where
  "keep_debug flds msg w = w @ [(flds, msg)]"

definition bridge_conf :: netconf where
  "bridge_conf = GoMap [''type'' \<mapsto> JString ''bridge'', ''bridge'' \<mapsto> JString ''cni0'']"

definition macvlan_conf :: netconf where
  "macvlan_conf = GoMap [''type'' \<mapsto> JString ''macvlan'', ''master'' \<mapsto> JString ''eth1'']"

definition example_config :: config where
  "example_config =
     \<lparr>Name = ''k8s'', Type = ''kube-namespace-cni'', LogLevel = ''debug'',
      Default = bridge_conf,
      Namespaces = GoMap [''isolated'' \<mapsto> macvlan_conf, ''bare'' \<mapsto> GoMap Map.empty]\<rparr>"

definition no_default_config :: config where
  "no_default_config =
     \<lparr>Name = ''k8s'', Type = ''kube-namespace-cni'', LogLevel = [],
      Default = NilMap,
      Namespaces = GoMap [''isolated'' \<mapsto> macvlan_conf]\<rparr>"

section \<open>The splitter\<close>

lemma Index_None: "Index s sep = None \<longleftrightarrow> sep \<notin> set s"
  by (induction s) (auto split: option.splits)

lemma Index_Some:
  "Index s sep = Some i \<Longrightarrow>
     take i s = takeWhile (\<lambda>c. c \<noteq> sep) s \<and>
     drop (Suc i) s = drop 1 (dropWhile (\<lambda>c. c \<noteq> sep) s)"
  by (induction s arbitrary: i) (auto split: option.splits if_splits)

lemma Index_Some_cut:
  "Index s sep = Some i \<Longrightarrow>
     s = take i s @ sep # drop (Suc i) s \<and> sep \<notin> set (take i s) \<and>
     Count s sep = Suc (Count (drop (Suc i) s) sep)"
  by (induction s arbitrary: i) (auto split: option.splits if_splits)

lemma genSplit_not_Nil: "0 < n \<Longrightarrow> genSplit s sep n \<noteq> []"
  by (induction s sep n rule: genSplit.induct) (auto split: option.splits)

lemma Join_Cons: "ss \<noteq> [] \<Longrightarrow> Join (s # ss) sep = s @ sep # Join ss sep"
  by (cases ss) simp_all

lemma genSplit_Join: "Count s sep < n \<Longrightarrow> Join (genSplit s sep n) sep = s"
proof (induction s sep n rule: genSplit.induct)
  case (1 s sep)
  then show ?case by simp
next
  case (2 s sep)
  then show ?case by simp
next
  case (3 s sep n)
  show ?case
  proof (cases "Index s sep")
    case None
    then show ?thesis by simp
  next
    case (Some m)
    note cut = Index_Some_cut [OF Some]
    from cut "3.prems" have "Count (drop (Suc m) s) sep < Suc n" by simp
    then have "Join (genSplit (drop (Suc m) s) sep (Suc n)) sep = drop (Suc m) s"
      using "3.IH" Some by simp
    moreover have "genSplit (drop (Suc m) s) sep (Suc n) \<noteq> []"
      by (rule genSplit_not_Nil) simp
    ultimately have "Join (genSplit s sep (Suc (Suc n))) sep = take m s @ sep # drop (Suc m) s"
      using Some by (simp add: Join_Cons)
    with cut show ?thesis by simp
  qed
qed

lemma genSplit_no_sep:
  "Count s sep < n \<Longrightarrow> seg \<in> set (genSplit s sep n) \<Longrightarrow> sep \<notin> set seg"
proof (induction s sep n rule: genSplit.induct)
  case (1 s sep)
  then show ?case by simp
next
  case (2 s sep)
  have "Count s sep = 0 \<Longrightarrow> sep \<notin> set s"
    by (induction s) (auto split: if_splits)
  with 2 show ?case by simp
next
  case (3 s sep n)
  show ?case
  proof (cases "Index s sep")
    case None
    with "3.prems" show ?thesis by (simp add: Index_None)
  next
    case (Some m)
    note cut = Index_Some_cut [OF Some]
    from cut "3.prems" have small: "Count (drop (Suc m) s) sep < Suc n" by simp
    from "3.prems" Some
    consider "seg = take m s" | "seg \<in> set (genSplit (drop (Suc m) s) sep (Suc n))"
      by auto
    then show ?thesis
    proof cases
      case 1
      with cut show ?thesis by simp
    next
      case 2
      with "3.IH" Some small show ?thesis by simp
    qed
  qed
qed

lemma Split_Join: "Join (Split s sep) sep = s"
  by (simp add: Split_def genSplit_Join)

lemma Split_no_sep: "seg \<in> set (Split s sep) \<Longrightarrow> sep \<notin> set seg"
  unfolding Split_def by (rule genSplit_no_sep [of s sep "Suc (Count s sep)"]) simp_all

lemma SplitN_2:
  "SplitN s sep 2 =
     (case Index s sep of None \<Rightarrow> [s] | Some m \<Rightarrow> [take m s, drop (Suc m) s])"
  by (simp add: SplitN_def numeral_2_eq_2 split: option.splits)

section \<open>The parser\<close>

lemma parse_segment_eq:
  "parse_segment m seg =
     Return (if has_equals seg then m(fst (key_value seg) \<mapsto> snd (key_value seg)) else m)"
proof (cases "Index seg (CHR ''='')")
  case None
  moreover from None have "\<not> has_equals seg"
    by (simp add: has_equals_def Index_None)
  ultimately show ?thesis
    by (simp add: parse_segment_def SplitN_2)
next
  case (Some i)
  then have "has_equals seg"
    using Index_None [of seg "CHR ''=''"] by (simp add: has_equals_def)
  with Some Index_Some [OF Some] show ?thesis
    by (simp add: parse_segment_def SplitN_2 at_def key_value_def)
qed

lemma parse_loop_eq:
  "parse_loop m segs = Return (m ++ map_of (rev (map key_value (filter has_equals segs))))"
proof (induction segs arbitrary: m)
  case Nil
  show ?case by simp
next
  case (Cons seg segs)
  show ?case
  proof (cases "has_equals seg")
    case True
    obtain k v where kv: "key_value seg = (k, v)" by (cases "key_value seg")
    let ?rest = "map_of (rev (map key_value (filter has_equals segs)))"
    have step: "parse_segment m seg = Return (m(k \<mapsto> v))"
      using True kv by (simp add: parse_segment_eq)
    have "m(k \<mapsto> v) ++ ?rest = m ++ (map_of [(k, v)] ++ ?rest)"
      by (rule ext) (simp add: map_add_def split: option.splits)
    also have "\<dots> = m ++ map_of (rev (map key_value (filter has_equals (seg # segs))))"
      using True kv by (simp only: filter.simps if_True list.map rev.simps map_of_append)
    finally show ?thesis
      by (simp only: parse_loop.simps step outcome.case Cons.IH)
  next
    case False
    then show ?thesis by (simp add: parse_segment_eq Cons.IH)
  qed
qed

lemma parseExtraArgs_pairs:
  "parseExtraArgs args = Return (map_of (rev (wellformed_pairs args)))"
  by (simp add: parseExtraArgs_def parse_loop_eq wellformed_pairs_def)

lemmas parse_eval =
  parseExtraArgs_def Split_def parse_segment_def SplitN_def numeral_2_eq_2 at_def


text \<open>
  A segment that ends at its \<^verbatim>\<open>=\<close> is well formed in this sense: the key is kept, bound to
  the empty string. Read through \<open>index_string\<close> it cannot be told from a missing key.
\<close>

lemma parseExtraArgs_empty_value:
  "parseExtraArgs ''a=;b;=c;d=e=f'' = Return [''a'' \<mapsto> [], [] \<mapsto> ''c'', ''d'' \<mapsto> ''e=f'']"
  by (simp add: parse_eval)

section \<open>The resolver\<close>

lemma getNetConf_parsed:
  "parseExtraArgs args = Return extraArgs \<Longrightarrow>
   getNetConf Debug c args w =
     (let namespace = index_string extraArgs ''K8S_POD_NAMESPACE'';
          pod = index_string extraArgs ''K8S_POD_NAME''
      in if namespace = [] then (Return (Inl NamespaceMissing), w)
         else (case lookup_ok (Namespaces c) namespace of
                 Some cfg \<Rightarrow>
                   (Return (Inr cfg),
                    Debug \<lparr>field_namespace = namespace, field_pod = pod, field_config = cfg\<rparr>
                      ''Using namespace specific config.'' w)
               | None \<Rightarrow>
                   if len_is_zero (Default c)
                   then (Return (Inl (ConfigNotFound namespace)), w)
                   else (Return (Inr (Default c)),
                         Debug \<lparr>field_namespace = namespace, field_pod = pod,
                                field_config = Default c\<rparr>
                           ''Per-namespace config not found. Using default.'' w)))"
  by (simp add: getNetConf_def)

lemma getNetConf_result:
  "parseExtraArgs args = Return extraArgs \<Longrightarrow>
   fst (getNetConf Debug c args w) =
     (if index_string extraArgs ''K8S_POD_NAMESPACE'' = [] then Return (Inl NamespaceMissing)
      else (case lookup_ok (Namespaces c) (index_string extraArgs ''K8S_POD_NAMESPACE'') of
              Some cfg \<Rightarrow> Return (Inr cfg)
            | None \<Rightarrow>
                if len_is_zero (Default c)
                then Return (Inl (ConfigNotFound (index_string extraArgs ''K8S_POD_NAMESPACE'')))
                else Return (Inr (Default c))))"
  by (simp add: getNetConf_parsed Let_def split: option.splits)

lemma args_isolated_web:
  "parseExtraArgs ''K8S_POD_NAMESPACE=isolated;K8S_POD_NAME=web'' =
     Return [''K8S_POD_NAMESPACE'' \<mapsto> ''isolated'', ''K8S_POD_NAME'' \<mapsto> ''web'']"
  by (simp add: parse_eval)

lemma args_bare_web:
  "parseExtraArgs ''K8S_POD_NAMESPACE=bare;K8S_POD_NAME=web'' =
     Return [''K8S_POD_NAMESPACE'' \<mapsto> ''bare'', ''K8S_POD_NAME'' \<mapsto> ''web'']"
  by (simp add: parse_eval)

lemma args_other_web:
  "parseExtraArgs ''K8S_POD_NAMESPACE=other;K8S_POD_NAME=web'' =
     Return [''K8S_POD_NAMESPACE'' \<mapsto> ''other'', ''K8S_POD_NAME'' \<mapsto> ''web'']"
  by (simp add: parse_eval)

lemma args_db_isolated:
  "parseExtraArgs ''K8S_POD_NAME=db;K8S_POD_NAMESPACE=isolated'' =
     Return [''K8S_POD_NAME'' \<mapsto> ''db'', ''K8S_POD_NAMESPACE'' \<mapsto> ''isolated'']"
  by (simp add: parse_eval)

lemma args_no_namespace:
  "parseExtraArgs ''K8S_POD_NAME=web'' = Return [''K8S_POD_NAME'' \<mapsto> ''web'']"
  by (simp add: parse_eval)

lemma args_empty_namespace:
  "parseExtraArgs ''K8S_POD_NAMESPACE=;K8S_POD_NAME=web'' =
     Return [''K8S_POD_NAMESPACE'' \<mapsto> [], ''K8S_POD_NAME'' \<mapsto> ''web'']"
  by (simp add: parse_eval)

text \<open>
  C1. When the parsed arguments bind \<^verbatim>\<open>K8S_POD_NAMESPACE\<close> to a non-empty \<open>N\<close> and the
  document's \<open>Namespaces\<close> has an entry for \<open>N\<close>, \<open>getNetConf\<close> returns that entry, whatever
  the document's \<open>Default\<close> is.
\<close>

theorem getNetConf_namespace_entry:
  assumes "parseExtraArgs args = Return extraArgs"
    and "extraArgs ''K8S_POD_NAMESPACE'' = Some N"
    and "N \<noteq> []"
    and "lookup_ok (Namespaces c) N = Some cfg"
  shows "fst (getNetConf Debug c args w) = Return (Inr cfg)"
  using assms by (simp add: getNetConf_result index_string_def)

theorem getNetConf_namespace_entry_witness:
  "parseExtraArgs ''K8S_POD_NAMESPACE=isolated;K8S_POD_NAME=web'' =
     Return [''K8S_POD_NAMESPACE'' \<mapsto> ''isolated'', ''K8S_POD_NAME'' \<mapsto> ''web''] \<and>
   lookup_ok (Namespaces example_config) ''isolated'' = Some macvlan_conf \<and>
   Default example_config = bridge_conf \<and> bridge_conf \<noteq> macvlan_conf \<and>
   fst (getNetConf keep_debug example_config ''K8S_POD_NAMESPACE=isolated;K8S_POD_NAME=web'' [])
     = Return (Inr macvlan_conf)"
proof -
  have entry: "lookup_ok (Namespaces example_config) ''isolated'' = Some macvlan_conf"
    by (simp add: example_config_def)
  have differ: "bridge_conf \<noteq> macvlan_conf"
  proof
    assume "bridge_conf = macvlan_conf"
    then have "index_iface bridge_conf ''type'' = index_iface macvlan_conf ''type''"
      by simp
    then show False
      by (simp add: index_iface_def bridge_conf_def macvlan_conf_def)
  qed
  have "fst (getNetConf keep_debug example_config
               ''K8S_POD_NAMESPACE=isolated;K8S_POD_NAME=web'' []) = Return (Inr macvlan_conf)"
    by (rule getNetConf_namespace_entry [OF args_isolated_web _ _ entry]) simp_all
  with entry differ show ?thesis
    by (simp add: args_isolated_web example_config_def)
qed

text \<open>
  C3. When the parsed arguments have no \<^verbatim>\<open>K8S_POD_NAMESPACE\<close> key, or bind it to the empty
  string, \<open>getNetConf\<close> returns the missing-namespace error and no configuration, whatever
  the document holds; nothing is logged.
\<close>

theorem getNetConf_namespace_missing:
  assumes "parseExtraArgs args = Return extraArgs"
    and "extraArgs ''K8S_POD_NAMESPACE'' = None \<or> extraArgs ''K8S_POD_NAMESPACE'' = Some []"
  shows "getNetConf Debug c args w = (Return (Inl NamespaceMissing), w)"
  using assms by (auto simp add: getNetConf_parsed index_string_def)

theorem getNetConf_namespace_missing_witness:
  "parseExtraArgs ''K8S_POD_NAME=web'' = Return [''K8S_POD_NAME'' \<mapsto> ''web''] \<and>
   [''K8S_POD_NAME'' \<mapsto> ''web''] ''K8S_POD_NAMESPACE'' = None \<and>
   getNetConf keep_debug example_config ''K8S_POD_NAME=web'' []
     = (Return (Inl NamespaceMissing), []) \<and>
   parseExtraArgs ''K8S_POD_NAMESPACE=;K8S_POD_NAME=web'' =
     Return [''K8S_POD_NAMESPACE'' \<mapsto> [], ''K8S_POD_NAME'' \<mapsto> ''web''] \<and>
   getNetConf keep_debug example_config ''K8S_POD_NAMESPACE=;K8S_POD_NAME=web'' []
     = (Return (Inl NamespaceMissing), [])"
proof -
  have absent: "getNetConf keep_debug example_config ''K8S_POD_NAME=web'' []
     = (Return (Inl NamespaceMissing), [])"
    by (rule getNetConf_namespace_missing [OF args_no_namespace]) simp
  have empty: "getNetConf keep_debug example_config ''K8S_POD_NAMESPACE=;K8S_POD_NAME=web'' []
     = (Return (Inl NamespaceMissing), [])"
    by (rule getNetConf_namespace_missing [OF args_empty_namespace]) simp
  from absent empty show ?thesis
    by (simp add: args_no_namespace args_empty_namespace)
qed

text \<open>
  C4. When the namespace \<open>N\<close> is non-empty and has no entry in \<open>Namespaces\<close>, and the
  document's \<open>Default\<close> is not empty, \<open>getNetConf\<close> returns \<open>Default\<close> as it stands.
\<close>

theorem getNetConf_default:
  assumes "parseExtraArgs args = Return extraArgs"
    and "extraArgs ''K8S_POD_NAMESPACE'' = Some N"
    and "N \<noteq> []"
    and "lookup_ok (Namespaces c) N = None"
    and "\<not> len_is_zero (Default c)"
  shows "fst (getNetConf Debug c args w) = Return (Inr (Default c))"
  using assms by (simp add: getNetConf_result index_string_def)

theorem getNetConf_default_witness:
  "parseExtraArgs ''K8S_POD_NAMESPACE=other;K8S_POD_NAME=web'' =
     Return [''K8S_POD_NAMESPACE'' \<mapsto> ''other'', ''K8S_POD_NAME'' \<mapsto> ''web''] \<and>
   lookup_ok (Namespaces example_config) ''other'' = None \<and>
   \<not> len_is_zero (Default example_config) \<and>
   fst (getNetConf keep_debug example_config ''K8S_POD_NAMESPACE=other;K8S_POD_NAME=web'' [])
     = Return (Inr bridge_conf)"
proof -
  have absent: "lookup_ok (Namespaces example_config) ''other'' = None"
    by (simp add: example_config_def)
  have filled: "\<not> len_is_zero (Default example_config)"
    by (simp add: example_config_def bridge_conf_def)
  have "fst (getNetConf keep_debug example_config
               ''K8S_POD_NAMESPACE=other;K8S_POD_NAME=web'' [])
          = Return (Inr (Default example_config))"
    by (rule getNetConf_default [OF args_other_web _ _ absent filled]) simp_all
  with absent filled show ?thesis
    by (simp add: args_other_web example_config_def)
qed

text \<open>
  C5. When the namespace \<open>N\<close> is non-empty and has no entry in \<open>Namespaces\<close>, and the
  document's \<open>Default\<close> is empty or absent, \<open>getNetConf\<close> returns the error that names \<open>N\<close>
  and no configuration; nothing is logged.
\<close>

theorem getNetConf_not_found:
  assumes "parseExtraArgs args = Return extraArgs"
    and "extraArgs ''K8S_POD_NAMESPACE'' = Some N"
    and "N \<noteq> []"
    and "lookup_ok (Namespaces c) N = None"
    and "len_is_zero (Default c)"
  shows "getNetConf Debug c args w = (Return (Inl (ConfigNotFound N)), w)"
  using assms by (simp add: getNetConf_parsed index_string_def)

theorem getNetConf_not_found_witness:
  "parseExtraArgs ''K8S_POD_NAMESPACE=other;K8S_POD_NAME=web'' =
     Return [''K8S_POD_NAMESPACE'' \<mapsto> ''other'', ''K8S_POD_NAME'' \<mapsto> ''web''] \<and>
   lookup_ok (Namespaces no_default_config) ''other'' = None \<and>
   len_is_zero (Default no_default_config) \<and>
   getNetConf keep_debug no_default_config ''K8S_POD_NAMESPACE=other;K8S_POD_NAME=web'' []
     = (Return (Inl (ConfigNotFound ''other'')), []) \<and>
   getNetConf keep_debug (no_default_config\<lparr>Default := GoMap Map.empty\<rparr>)
       ''K8S_POD_NAMESPACE=other;K8S_POD_NAME=web'' []
     = (Return (Inl (ConfigNotFound ''other'')), [])"
proof -
  have absent: "lookup_ok (Namespaces no_default_config) ''other'' = None"
    by (simp add: no_default_config_def)
  have nil: "len_is_zero (Default no_default_config)"
    by (simp add: no_default_config_def)
  have one: "getNetConf keep_debug no_default_config
               ''K8S_POD_NAMESPACE=other;K8S_POD_NAME=web'' []
          = (Return (Inl (ConfigNotFound ''other'')), [])"
    by (rule getNetConf_not_found [OF args_other_web _ _ absent nil]) simp_all
  have two: "getNetConf keep_debug (no_default_config\<lparr>Default := GoMap Map.empty\<rparr>)
               ''K8S_POD_NAMESPACE=other;K8S_POD_NAME=web'' []
          = (Return (Inl (ConfigNotFound ''other'')), [])"
    by (rule getNetConf_not_found [OF args_other_web]) (simp_all add: no_default_config_def)
  from absent nil one two show ?thesis
    by (simp add: args_other_web)
qed

text \<open>
  C8. The pod name only reaches the debug record. Two argument strings whose parsed
  \<^verbatim>\<open>K8S_POD_NAMESPACE\<close> values agree (read as Go reads the map, a missing key being the
  empty string) give the same result on the same document, whatever their
  \<^verbatim>\<open>K8S_POD_NAME\<close> values and whatever the logger does.
\<close>

theorem getNetConf_ignores_pod:
  assumes "parseExtraArgs args1 = Return extraArgs1"
    and "parseExtraArgs args2 = Return extraArgs2"
    and "index_string extraArgs1 ''K8S_POD_NAMESPACE'' =
         index_string extraArgs2 ''K8S_POD_NAMESPACE''"
  shows "fst (getNetConf Debug1 c args1 w1) = fst (getNetConf Debug2 c args2 w2)"
  using assms by (simp only: getNetConf_result)

theorem getNetConf_ignores_pod_witness:
  "parseExtraArgs ''K8S_POD_NAMESPACE=isolated;K8S_POD_NAME=web'' =
     Return [''K8S_POD_NAMESPACE'' \<mapsto> ''isolated'', ''K8S_POD_NAME'' \<mapsto> ''web''] \<and>
   parseExtraArgs ''K8S_POD_NAME=db;K8S_POD_NAMESPACE=isolated'' =
     Return [''K8S_POD_NAME'' \<mapsto> ''db'', ''K8S_POD_NAMESPACE'' \<mapsto> ''isolated''] \<and>
   fst (getNetConf keep_debug example_config ''K8S_POD_NAMESPACE=isolated;K8S_POD_NAME=web'' [])
     = fst (getNetConf keep_debug example_config
              ''K8S_POD_NAME=db;K8S_POD_NAMESPACE=isolated'' []) \<and>
   snd (getNetConf keep_debug example_config ''K8S_POD_NAMESPACE=isolated;K8S_POD_NAME=web'' [])
     \<noteq> snd (getNetConf keep_debug example_config
              ''K8S_POD_NAME=db;K8S_POD_NAMESPACE=isolated'' [])"
proof -
  have same: "fst (getNetConf keep_debug example_config
                     ''K8S_POD_NAMESPACE=isolated;K8S_POD_NAME=web'' [])
     = fst (getNetConf keep_debug example_config
              ''K8S_POD_NAME=db;K8S_POD_NAMESPACE=isolated'' [])"
    by (rule getNetConf_ignores_pod [OF args_isolated_web args_db_isolated])
       (simp add: index_string_def)
  have logs: "snd (getNetConf keep_debug example_config
                     ''K8S_POD_NAMESPACE=isolated;K8S_POD_NAME=web'' [])
     \<noteq> snd (getNetConf keep_debug example_config
              ''K8S_POD_NAME=db;K8S_POD_NAMESPACE=isolated'' [])"
    by (simp add: getNetConf_parsed [OF args_isolated_web] getNetConf_parsed [OF args_db_isolated]
          index_string_def example_config_def keep_debug_def)
  from same logs show ?thesis
    by (simp add: args_isolated_web args_db_isolated)
qed

text \<open>
  C9. \<open>getNetConf\<close> returns on every document and every argument string (no step of it
  panics), and what it returns is fixed by the document and the string alone: the one
  thing outside them that the function touches is the logger, and neither the logger's
  behaviour nor the state of the world changes the result.
\<close>

theorem getNetConf_total_deterministic:
  "(\<exists>r w'. getNetConf Debug1 c args w1 = (Return r, w')) \<and>
   fst (getNetConf Debug1 c args w1) = fst (getNetConf Debug2 c args w2)"
proof
  show "\<exists>r w'. getNetConf Debug1 c args w1 = (Return r, w')"
    by (simp add: getNetConf_parsed [OF parseExtraArgs_pairs] Let_def split: option.splits)
  show "fst (getNetConf Debug1 c args w1) = fst (getNetConf Debug2 c args w2)"
    by (simp only: getNetConf_result [OF parseExtraArgs_pairs])
qed

text \<open>
  C10. Only the default is tested for emptiness. When \<open>Namespaces\<close> has an entry for the
  non-empty namespace \<open>N\<close> and that entry is empty, \<open>getNetConf\<close> returns the empty entry;
  it neither falls through to \<open>Default\<close> nor reports a missing configuration.
\<close>

theorem getNetConf_empty_entry:
  assumes "parseExtraArgs args = Return extraArgs"
    and "extraArgs ''K8S_POD_NAMESPACE'' = Some N"
    and "N \<noteq> []"
    and "lookup_ok (Namespaces c) N = Some cfg"
    and "len_is_zero cfg"
  shows "fst (getNetConf Debug c args w) = Return (Inr cfg)"
  using assms(1-4) by (simp add: getNetConf_result index_string_def)

theorem getNetConf_empty_entry_witness:
  "parseExtraArgs ''K8S_POD_NAMESPACE=bare;K8S_POD_NAME=web'' =
     Return [''K8S_POD_NAMESPACE'' \<mapsto> ''bare'', ''K8S_POD_NAME'' \<mapsto> ''web''] \<and>
   lookup_ok (Namespaces example_config) ''bare'' = Some (GoMap Map.empty) \<and>
   len_is_zero (GoMap Map.empty :: netconf) \<and>
   \<not> len_is_zero (Default example_config) \<and>
   fst (getNetConf keep_debug example_config ''K8S_POD_NAMESPACE=bare;K8S_POD_NAME=web'' [])
     = Return (Inr (GoMap Map.empty))"
proof -
  have entry: "lookup_ok (Namespaces example_config) ''bare'' = Some (GoMap Map.empty)"
    by (simp add: example_config_def)
  have empty: "len_is_zero (GoMap Map.empty :: netconf)"
    by simp
  have filled: "\<not> len_is_zero (Default example_config)"
    by (simp add: example_config_def bridge_conf_def)
  have "fst (getNetConf keep_debug example_config
               ''K8S_POD_NAMESPACE=bare;K8S_POD_NAME=web'' [])
          = Return (Inr (GoMap Map.empty))"
    by (rule getNetConf_empty_entry [OF args_bare_web _ _ entry empty]) simp_all
  with entry filled show ?thesis
    by (simp add: args_bare_web)
qed

section \<open>The delegator\<close>

lemma assert_string_Return: "assert_string v = Return s \<longleftrightarrow> v = JString s"
  by (cases v) auto

lemma delegateAdd_marshal_error:
  "Marshal netconf = Inl err \<Longrightarrow>
   delegateAdd Marshal DelegateAdd Print netconf w = (Return (Some (MarshalFailed err)), w)"
  by (simp add: delegateAdd_def)

lemma delegateAdd_invokes:
  "Marshal netconf = Inr ncBytes \<Longrightarrow> index_iface netconf ''type'' = JString t \<Longrightarrow>
   delegateAdd Marshal DelegateAdd Print netconf w =
     (case DelegateAdd t ncBytes w of
        (Inl err, w') \<Rightarrow> (Return (Some err), w')
      | (Inr result, w') \<Rightarrow> (case Print result w' of (e, w'') \<Rightarrow> (Return e, w'')))"
  by (simp add: delegateAdd_def)

lemma delegateDel_invokes:
  "Marshal netconf = Inr ncBytes \<Longrightarrow> index_iface netconf ''type'' = JString t \<Longrightarrow>
   delegateDel Marshal DelegateDel netconf w =
     (case DelegateDel t ncBytes w of (e, w') \<Rightarrow> (Return e, w'))"
  by (simp add: delegateDel_def)

lemma delegateAdd_panics:
  "Marshal netconf = Inr ncBytes \<Longrightarrow> \<forall>t. index_iface netconf ''type'' \<noteq> JString t \<Longrightarrow>
   delegateAdd Marshal DelegateAdd Print netconf w = (Panic InterfaceConversion, w)"
  by (cases "index_iface netconf ''type''") (simp_all add: delegateAdd_def)

lemma delegateDel_panics:
  "Marshal netconf = Inr ncBytes \<Longrightarrow> \<forall>t. index_iface netconf ''type'' \<noteq> JString t \<Longrightarrow>
   delegateDel Marshal DelegateDel netconf w = (Panic InterfaceConversion, w)"
  by (cases "index_iface netconf ''type''") (simp_all add: delegateDel_def)

text \<open>
  C6 asks for a returned delegation error when the \<^verbatim>\<open>type\<close> field is missing or is not a
  string. The code does otherwise once the object has been marshalled: on an object with
  no \<^verbatim>\<open>type\<close> key, with a \<^verbatim>\<open>type\<close> that is a boolean, on the empty object and on the nil
  map, \<open>delegateAdd\<close> and \<open>delegateDel\<close> return nothing: the type assertion panics. The
  world is left as it was, so no subordinate plugin has been invoked.
\<close>

theorem delegate_without_type_panics:
  "delegateAdd (\<lambda>nc. Inr ncBytes) DelegateAdd Print
      (GoMap [''bridge'' \<mapsto> JString ''cni0'']) w = (Panic InterfaceConversion, w) \<and>
   delegateDel (\<lambda>nc. Inr ncBytes) DelegateDel
      (GoMap [''bridge'' \<mapsto> JString ''cni0'']) w = (Panic InterfaceConversion, w) \<and>
   delegateAdd (\<lambda>nc. Inr ncBytes) DelegateAdd Print
      (GoMap [''type'' \<mapsto> JBool True]) w = (Panic InterfaceConversion, w) \<and>
   delegateDel (\<lambda>nc. Inr ncBytes) DelegateDel
      (GoMap [''type'' \<mapsto> JBool True]) w = (Panic InterfaceConversion, w) \<and>
   delegateAdd (\<lambda>nc. Inr ncBytes) DelegateAdd Print (GoMap Map.empty) w
     = (Panic InterfaceConversion, w) \<and>
   delegateDel (\<lambda>nc. Inr ncBytes) DelegateDel NilMap w = (Panic InterfaceConversion, w)"
  by (simp add: delegateAdd_def delegateDel_def index_iface_def)

text \<open>
  Such an object reaches the delegator: the example document's entry for \<^verbatim>\<open>bare\<close> is what
  \<open>getNetConf\<close> resolves, and \<open>delegateAdd\<close> panics on it.
\<close>

lemma resolved_entry_panics:
  "\<exists>nc. fst (getNetConf keep_debug example_config
                 ''K8S_POD_NAMESPACE=bare;K8S_POD_NAME=web'' []) = Return (Inr nc) \<and>
        delegateAdd (\<lambda>nc. Inr ncBytes) DelegateAdd Print nc w = (Panic InterfaceConversion, w)"
  by (simp add: getNetConf_result [OF args_bare_web] index_string_def example_config_def
        delegateAdd_def index_iface_def)

end
